theory Spec2Isabelle
  imports Complex_Main "HOL-Library.Word"
begin

section \<open>Container creation and delta synthesis of the daemon (daemon/create.go)\<close>

text \<open>
  A shallow embedding of \<^verbatim>\<open>daemon/create.go\<close>. Every function of that file that a
  property below talks about is a HOL function with the same name and the same case
  order. Functions of other packages that the file calls (the image and layer stores,
  the container registry, the SELinux label library, the IP parser) are parameters,
  collected in records of collaborators: nothing is assumed about what they return.
\<close>

subsection \<open>Go values\<close>

text \<open>
  A Go slice is \<^verbatim>\<open>nil\<close> or a sequence of elements; \<^verbatim>\<open>len(nil)\<close> is 0. The code
  tests slices against \<^verbatim>\<open>nil\<close>, so the model keeps the difference.
\<close>

type_synonym 'a slice = "'a list option"

definition len :: "'a slice \<Rightarrow> nat" where
  "len s = (case s of None \<Rightarrow> 0 | Some xs \<Rightarrow> length xs)"

text \<open>\<^verbatim>\<open>s[i]\<close>, used only where the code has checked the length.\<close>

definition elem :: "'a slice \<Rightarrow> nat \<Rightarrow> 'a" where
  "elem s i = (case s of Some xs \<Rightarrow> xs ! i)"

text \<open>
  Errors are values. \<open>Errorf m\<close> is the error \<^verbatim>\<open>fmt.Errorf\<close> or \<^verbatim>\<open>errors.New\<close>
  builds with message \<open>m\<close> (an error of a collaborator is one of these too),
  \<open>BadRequestError e\<close> is \<^verbatim>\<open>apierrors.NewBadRequestError(e)\<close>, \<open>Wrapf e m\<close> is
  \<^verbatim>\<open>errors.Wrapf(e, m)\<close>, and \<open>Panic m\<close> is a run-time panic.
\<close>

datatype error =
    Errorf string
  | BadRequestError error
  | Wrapf error string
  | Panic string

type_synonym int64 = "64 word"

subsection \<open>Process config and \<^verbatim>\<open>mergeAndVerifyConfig\<close>\<close>

text \<open>
  \<^verbatim>\<open>containertypes.Config\<close>: the fields the file reads, the others in the record's
  extension. The caller passes a pointer, so a function that updates the config
  returns the updated record beside its error.
\<close>

record Config =
  Image :: string
  Entrypoint :: "string slice"
  Cmd :: "string slice"

record 'r Image =
  img_ID :: string
  img_OS :: string
  img_Platform :: string
  img_Config :: "'r Config_scheme option"
  img_DiffIDs :: "string list"
  img_RawJSON :: string

text \<open>
  \<^verbatim>\<open>merge(userConf, imageConf)\<close> is defined in another file of the package; it is a
  parameter here: it may update the user's config and may fail.
\<close>

type_synonym 'r merge_fn =
  "'r Config_scheme \<Rightarrow> 'r Config_scheme \<Rightarrow> error option \<times> 'r Config_scheme"

definition mergeAndVerifyConfig ::
  "'r merge_fn \<Rightarrow> 'r Config_scheme \<Rightarrow> 'r Image option \<Rightarrow> error option \<times> 'r Config_scheme" where
  "mergeAndVerifyConfig merge config img =
     (let (err, config1) =
            (case (case img of None \<Rightarrow> None | Some i \<Rightarrow> img_Config i) of
               Some imgConfig \<Rightarrow> merge config imgConfig
             | None \<Rightarrow> (None, config))
      in if err \<noteq> None then (err, config1)
         else
           let config2 =
                 (if len (Entrypoint config1) = 1 \<and> elem (Entrypoint config1) 0 = ''''
                  then config1\<lparr>Entrypoint := None\<rparr> else config1)
           in if len (Entrypoint config2) = 0 \<and> len (Cmd config2) = 0
              then (Some (Errorf ''No command specified''), config2)
              else (None, config2))"

text \<open>The config as it stands when the entrypoint reset and the check begin.\<close>

definition merged :: "'r merge_fn \<Rightarrow> 'r Config_scheme \<Rightarrow> 'r Image option \<Rightarrow> 'r Config_scheme" where
  "merged merge config img =
     (case (case img of None \<Rightarrow> None | Some i \<Rightarrow> img_Config i) of
        Some imgConfig \<Rightarrow> snd (merge config imgConfig)
      | None \<Rightarrow> config)"

definition mergeFailed :: "'r merge_fn \<Rightarrow> 'r Config_scheme \<Rightarrow> 'r Image option \<Rightarrow> bool" where
  "mergeFailed merge config img =
     (case (case img of None \<Rightarrow> None | Some i \<Rightarrow> img_Config i) of
        Some imgConfig \<Rightarrow> fst (merge config imgConfig) \<noteq> None
      | None \<Rightarrow> False)"

subsection \<open>Networking config and \<^verbatim>\<open>verifyNetworkingConfig\<close>\<close>

text \<open>
  \<^verbatim>\<open>EndpointsConfig\<close> is a Go map from network names to pointers. The model holds its
  entries as a list of pairs with distinct names, in the order in which the run ranges
  over the map (Go fixes no order); \<^verbatim>\<open>len\<close> of the map is the length of the list.
  A \<^verbatim>\<open>nil\<close> pointer is \<open>None\<close>.
\<close>

record EndpointIPAMConfig =
  IPv4Address :: string
  IPv6Address :: string

record EndpointSettings =
  IPAMConfig :: "EndpointIPAMConfig option"

record NetworkingConfig =
  EndpointsConfig :: "(string \<times> EndpointSettings option) list"

text \<open>
  The IP parser of the standard library: \<open>ParseIP\<close> gives \<^verbatim>\<open>nil\<close> (\<open>None\<close>) for a
  text that is no address; \<open>To4\<close> maps an address (possibly \<^verbatim>\<open>nil\<close>) to its four-byte
  form, or to \<^verbatim>\<open>nil\<close> when it has none.
\<close>

record 'ip netlib =
  ParseIP :: "string \<Rightarrow> 'ip option"
  To4 :: "'ip option \<Rightarrow> 'ip option"

text \<open>\<^verbatim>\<open>strings.Join(l, sep)\<close>.\<close>

fun Join :: "string list \<Rightarrow> string \<Rightarrow> string" where
  "Join [] sep = ''''"
| "Join [x] sep = x"
| "Join (x # y # ys) sep = x @ sep @ Join (y # ys) sep"

text \<open>The body of the loop over the entries (lines 320 to 332), for one entry.\<close>

definition verifyEndpoint :: "'ip netlib \<Rightarrow> EndpointSettings option \<Rightarrow> error option" where
  "verifyEndpoint lib v =
     (case v of
        None \<Rightarrow> None
      | Some s \<Rightarrow>
          (case IPAMConfig s of
             None \<Rightarrow> None
           | Some ipam \<Rightarrow>
               if IPv4Address ipam \<noteq> '''' \<and> To4 lib (ParseIP lib (IPv4Address ipam)) = None
               then Some (BadRequestError (Errorf (''invalid IPv4 address: '' @ IPv4Address ipam)))
               else if IPv6Address ipam \<noteq> '''' then
                 (let n = ParseIP lib (IPv6Address ipam)
                  in if n = None \<or> To4 lib n \<noteq> None
                     then Some (BadRequestError
                                  (Errorf (''invalid IPv6 address: '' @ IPv6Address ipam)))
                     else None)
               else None))"

fun verifyEndpoints :: "'ip netlib \<Rightarrow> (string \<times> EndpointSettings option) list \<Rightarrow> error option" where
  "verifyEndpoints lib [] = None"
| "verifyEndpoints lib ((k, v) # rest) =
     (case verifyEndpoint lib v of
        Some err \<Rightarrow> Some err
      | None \<Rightarrow> verifyEndpoints lib rest)"

definition verifyNetworkingConfig :: "'ip netlib \<Rightarrow> NetworkingConfig option \<Rightarrow> error option" where
  "verifyNetworkingConfig lib nwConfig =
     (case nwConfig of
        None \<Rightarrow> None
      | Some c \<Rightarrow>
          if length (EndpointsConfig c) = 0 then None
          else if length (EndpointsConfig c) = 1 then verifyEndpoints lib (EndpointsConfig c)
          else
            (let l = map fst (EndpointsConfig c)
             in Some (BadRequestError
                        (Errorf (''Container cannot be connected to network endpoints: ''
                                 @ Join l '', '')))))"

subsection \<open>Security labels: \<^verbatim>\<open>generateSecurityOpt\<close>\<close>

record HostConfig =
  SecurityOpt :: "string list"
  IpcMode :: string
  PidMode :: string
  Privileged :: bool
  StorageOpt :: "(string \<times> string) list"
  Runtime :: string

record Container =
  ID :: string
  ImageID :: string
  ctr_Platform :: string
  ProcessLabel :: string
  MountLabel :: string
  Root :: string
  ctr_StorageOpt :: "(string \<times> string) list"
  RWLayer :: "string option"

text \<open>
  What \<^verbatim>\<open>generateSecurityOpt\<close> calls outside the file: the methods of the namespace
  modes, the container lookup of the daemon, and the two functions of the SELinux label
  library, whose results are Go slices.
\<close>

record 'c seclib =
  ipc_IsHost :: "string \<Rightarrow> bool"
  pid_IsHost :: "string \<Rightarrow> bool"
  ipc_Container :: "string \<Rightarrow> string"
  pid_Container :: "string \<Rightarrow> string"
  GetContainer :: "string \<Rightarrow> error + 'c Container_scheme"
  DisableSecOpt :: "string slice"
  DupSecOpt :: "string \<Rightarrow> string slice"

text \<open>\<^verbatim>\<open>strings.Split(opt, "=")[0]\<close>: the text before the first \<^verbatim>\<open>=\<close>, all of it if none.\<close>

definition SplitHead :: "string \<Rightarrow> string" where
  "SplitHead opt = takeWhile (\<lambda>c. c \<noteq> CHR ''='') opt"

definition toHostConfigSelinuxLabels :: "string slice \<Rightarrow> string slice" where
  "toHostConfigSelinuxLabels labels = map_option (map (\<lambda>l. ''label='' @ l)) labels"

text \<open>
  The loop of lines 238 to 242, from index \<open>i\<close>. Reading \<^verbatim>\<open>ipcLabel[i]\<close> beyond the
  slice panics in Go, which is a result here.
\<close>

function labelsLoop :: "string list \<Rightarrow> string list \<Rightarrow> nat \<Rightarrow> error option" where
  "labelsLoop pidLabel ipcLabel i =
     (if i < length pidLabel then
        (if length ipcLabel \<le> i then Some (Panic ''index out of range'')
         else if pidLabel ! i \<noteq> ipcLabel ! i
         then Some (Errorf ''--ipc and --pid containers SELinux labels aren't the same'')
         else labelsLoop pidLabel ipcLabel (i + 1))
      else None)"
  by pat_completeness auto
termination
  by (relation "measure (\<lambda>(pidLabel, ipcLabel, i). length pidLabel - i)") auto

declare labelsLoop.simps [simp del]

text \<open>Lines 225 to 245, entered with the value \<open>ipcLabel\<close> has at line 225.\<close>

definition generateSecurityOpt_pid ::
  "'c seclib \<Rightarrow> string \<Rightarrow> string \<Rightarrow> string slice \<Rightarrow> error + string slice" where
  "generateSecurityOpt_pid lib ipcContainer pidContainer ipcLabel =
     (let after = (\<lambda>pidLabel.
            if pidLabel \<noteq> None \<and> ipcLabel \<noteq> None then
              (case labelsLoop (the pidLabel) (the ipcLabel) 0 of
                 Some err \<Rightarrow> Inl err
               | None \<Rightarrow> Inr (toHostConfigSelinuxLabels pidLabel))
            else Inr None)
      in if pidContainer \<noteq> '''' then
           (case GetContainer lib pidContainer of
              Inl err \<Rightarrow> Inl err
            | Inr c \<Rightarrow>
                (let pidLabel = DupSecOpt lib (ProcessLabel c)
                 in if ipcContainer = '''' then Inr (toHostConfigSelinuxLabels pidLabel)
                    else after pidLabel))
         else after None)"

definition generateSecurityOpt ::
  "'c seclib \<Rightarrow> 'h HostConfig_scheme \<Rightarrow> error + string slice" where
  "generateSecurityOpt lib hostConfig =
     (if list_ex (\<lambda>opt. SplitHead opt = ''label'') (SecurityOpt hostConfig) then Inr None
      else
        let ipcMode = IpcMode hostConfig;
            pidMode = PidMode hostConfig;
            privileged = Privileged hostConfig
        in if ipc_IsHost lib ipcMode \<or> pid_IsHost lib pidMode \<or> privileged
           then Inr (toHostConfigSelinuxLabels (DisableSecOpt lib))
           else
             let ipcContainer = ipc_Container lib ipcMode;
                 pidContainer = pid_Container lib pidMode
             in if ipcContainer \<noteq> '''' then
                  (case GetContainer lib ipcContainer of
                     Inl err \<Rightarrow> Inl err
                   | Inr c \<Rightarrow>
                       (let ipcLabel = DupSecOpt lib (ProcessLabel c)
                        in if pidContainer = '''' then Inr (toHostConfigSelinuxLabels ipcLabel)
                           else generateSecurityOpt_pid lib ipcContainer pidContainer ipcLabel))
                else generateSecurityOpt_pid lib ipcContainer pidContainer None)"

subsection \<open>Delta synthesis: \<^verbatim>\<open>DeltaCreate\<close>\<close>

text \<open>
  A layer as the loop sees it: what its methods \<^verbatim>\<open>TarStream\<close>, \<^verbatim>\<open>DiffSize\<close>,
  \<^verbatim>\<open>DiffID\<close> and \<^verbatim>\<open>Platform\<close> return. A chain identity is modelled by the sequence
  of diff identities it is the hash of.
\<close>

record Layer =
  l_TarStream :: "error + string"
  l_DiffSize :: "error + int64"
  l_DiffID :: string
  l_Platform :: string

text \<open>
  The content handed to \<^verbatim>\<open>ls.Register\<close>: the stream of the empty layer, or the read
  end of the pipe into which the background task writes the archive whose single entry
  \<^verbatim>\<open>delta\<close> is \<^verbatim>\<open>librsync.Delta(srcSig, input)\<close>. The task and the registration meet
  only through that pipe, so whatever goes wrong in the task is an error of
  \<^verbatim>\<open>Register\<close>.
\<close>

datatype layerData = EmptyLayerTar | DeltaPipe string string

record delta_image =
  di_RootFS :: "string list"
  di_base :: string
  di_config :: string

text \<open>
  The stores and libraries \<^verbatim>\<open>DeltaCreate\<close> calls. The layer and image store are those
  of the platform of the destination image, which is the first argument of their
  operations. \<open>TempFile\<close> is asked once for each changed position, which is its argument.
\<close>

record 'r delta_env =
  GetImage :: "string \<Rightarrow> error + 'r Image"
  GetTarSeekStream :: "string \<Rightarrow> string \<Rightarrow> error + string"
  SeekerSize :: "string \<Rightarrow> error + int64"
  Signature :: "string \<Rightarrow> error + string"
  EmptyLayerPlatform :: string
  ls_Get :: "string \<Rightarrow> string list \<Rightarrow> error + Layer"
  TempFile :: "nat \<Rightarrow> error option"
  ls_Register :: "string \<Rightarrow> layerData \<Rightarrow> string list \<Rightarrow> string \<Rightarrow> error + Layer"
  Marshal :: "delta_image \<Rightarrow> error + string"
  is_Create :: "string \<Rightarrow> string \<Rightarrow> error + string"

text \<open>
  The variables of the loop of lines 392 to 508, and the successful calls of
  \<^verbatim>\<open>ls.Register\<close> so far: the content, the parent chain and the layer that came back.
\<close>

record delta_state =
  deltaRootFS :: "string list"
  statTotalSize :: int64
  statDeltaSize :: int64
  registered :: "(layerData \<times> string list \<times> Layer) list"

text \<open>The test of line 401.\<close>

definition commonLayer :: "string list \<Rightarrow> nat \<Rightarrow> string \<Rightarrow> bool" where
  "commonLayer srcDiffIDs i diffID = (i < length srcDiffIDs \<and> srcDiffIDs ! i = diffID)"

text \<open>
  One round of the loop, at position \<open>i\<close> with \<open>diffID\<close> the destination's identity
  there. Progress updates have no effect on the control flow and are left out, as are
  the deferred releases, which run when \<^verbatim>\<open>DeltaCreate\<close> returns.
\<close>

definition deltaLayer ::
  "'r delta_env \<Rightarrow> string \<Rightarrow> 'r Image \<Rightarrow> 'r Image \<Rightarrow> nat \<Rightarrow> string \<Rightarrow> delta_state
     \<Rightarrow> error + delta_state" where
  "deltaLayer env srcSig srcImg dstImg i diffID s =
     (if commonLayer (img_DiffIDs srcImg) i diffID then
        (case ls_Register env (img_Platform dstImg) EmptyLayerTar (deltaRootFS s)
                (EmptyLayerPlatform env) of
           Inl err \<Rightarrow> Inl err
         | Inr newLayer \<Rightarrow>
             Inr (s\<lparr>deltaRootFS := deltaRootFS s @ [l_DiffID newLayer],
                    registered := registered s @ [(EmptyLayerTar, deltaRootFS s, newLayer)]\<rparr>))
      else
        (case ls_Get env (img_Platform dstImg) (take (i + 1) (img_DiffIDs dstImg)) of
           Inl err \<Rightarrow> Inl err
         | Inr l \<Rightarrow>
        (case l_TarStream l of
           Inl err \<Rightarrow> Inl err
         | Inr input \<Rightarrow>
        (case l_DiffSize l of
           Inl err \<Rightarrow> Inl err
         | Inr inputSize \<Rightarrow>
        (let s1 = s\<lparr>statTotalSize := statTotalSize s + inputSize\<rparr>
         in case TempFile env i of
           Some err \<Rightarrow> Inl err
         | None \<Rightarrow>
        (case ls_Register env (img_Platform dstImg) (DeltaPipe srcSig input) (deltaRootFS s1)
                (l_Platform l) of
           Inl err \<Rightarrow> Inl err
         | Inr newLayer \<Rightarrow>
        (case l_DiffSize newLayer of
           Inl err \<Rightarrow> Inl err
         | Inr deltaSize \<Rightarrow>
             Inr (s1\<lparr>statDeltaSize := statDeltaSize s1 + deltaSize,
                     deltaRootFS := deltaRootFS s1 @ [l_DiffID newLayer],
                     registered := registered s1 @
                       [(DeltaPipe srcSig input, deltaRootFS s1, newLayer)]\<rparr>))))))))"

text \<open>The loop, from position \<open>i\<close> over the destination's remaining identities.\<close>

fun deltaLayers ::
  "'r delta_env \<Rightarrow> string \<Rightarrow> 'r Image \<Rightarrow> 'r Image \<Rightarrow> nat \<Rightarrow> string list \<Rightarrow> delta_state
     \<Rightarrow> error + delta_state" where
  "deltaLayers env srcSig srcImg dstImg i [] s = Inr s"
| "deltaLayers env srcSig srcImg dstImg i (diffID # rest) s =
     (case deltaLayer env srcSig srcImg dstImg i diffID s of
        Inl err \<Rightarrow> Inl err
      | Inr s' \<Rightarrow> deltaLayers env srcSig srcImg dstImg (i + 1) rest s')"

text \<open>
  The quotient \<^verbatim>\<open>float64(a) / float64(b)\<close> of two 64-bit integers: by IEEE 754 a
  division by zero is no panic but an infinity, or not a number for 0/0. The quotient
  of the two integers is kept exact here: the rounding to 53 bits is not modelled.
\<close>

datatype float64 = Finite rat | PosInf | NegInf | NaN

definition float64_quot :: "int64 \<Rightarrow> int64 \<Rightarrow> float64" where
  "float64_quot a b =
     (if sint b = 0 then (if sint a = 0 then NaN else if 0 < sint a then PosInf else NegInf)
      else Finite (of_int (sint a) / of_int (sint b)))"

text \<open>Lines 535 to 538.\<close>

definition deltaRatio :: "int64 \<Rightarrow> int64 \<Rightarrow> float64" where
  "deltaRatio statTotal statDelta =
     (let r = float64_quot statTotal statDelta
      in if statTotal = 0 then Finite 1 else r)"

text \<open>What a successful run writes to the output stream, with the final loop state.\<close>

record delta_report =
  rep_state :: delta_state
  rep_ratio :: float64
  rep_id :: string

definition DeltaCreate :: "'r delta_env \<Rightarrow> string \<Rightarrow> string \<Rightarrow> error + delta_report" where
  "DeltaCreate env deltaSrc deltaDest =
     (case GetImage env deltaSrc of
        Inl err \<Rightarrow> Inl (Wrapf err (''no such image: '' @ deltaSrc))
      | Inr srcImg \<Rightarrow>
     (case GetImage env deltaDest of
        Inl err \<Rightarrow> Inl (Wrapf err (''no such image: '' @ deltaDest))
      | Inr dstImg \<Rightarrow>
     (case GetTarSeekStream env (img_Platform dstImg) (img_ID srcImg) of
        Inl err \<Rightarrow> Inl err
      | Inr srcData \<Rightarrow>
     (case SeekerSize env srcData of
        Inl err \<Rightarrow> Inl err
      | Inr srcDataLen \<Rightarrow>
     (case Signature env srcData of
        Inl err \<Rightarrow> Inl err
      | Inr srcSig \<Rightarrow>
     (case deltaLayers env srcSig srcImg dstImg 0 (img_DiffIDs dstImg)
             \<lparr>deltaRootFS = [], statTotalSize = 0, statDeltaSize = 0, registered = []\<rparr> of
        Inl err \<Rightarrow> Inl err
      | Inr s \<Rightarrow>
     (case Marshal env \<lparr>di_RootFS = deltaRootFS s, di_base = img_ID srcImg,
                         di_config = img_RawJSON dstImg\<rparr> of
        Inl err \<Rightarrow> Inl err
      | Inr rawConfig \<Rightarrow>
     (case is_Create env (img_Platform dstImg) rawConfig of
        Inl err \<Rightarrow> Inl err
      | Inr newID \<Rightarrow>
          Inr \<lparr>rep_state = s,
               rep_ratio = deltaRatio (statTotalSize s) (statDeltaSize s),
               rep_id = newID\<rparr>))))))))"

subsection \<open>Container creation: \<^verbatim>\<open>create\<close> and \<^verbatim>\<open>setRWLayer\<close>\<close>

text \<open>
  \<^verbatim>\<open>create\<close> works on objects it shares with its caller and with the daemon: the
  process config and the host config behind the pointers of \<^verbatim>\<open>params\<close>, and the state
  of the daemon (its stores, its registry, the file system), which is \<open>world\<close>. They are
  passed through every call that may change them and returned with the result.
  \<open>logged\<close> holds what the function has written to the error log.
\<close>

record ('w, 'r, 'h) heap =
  world :: 'w
  h_Config :: "'r Config_scheme"
  h_HostConfig :: "'h HostConfig_scheme"
  logged :: "error list"

text \<open>From line 134 on there is the container object as well.\<close>

record ('w, 'r, 'h, 'c) cstate = "('w, 'r, 'h) heap" +
  container :: "'c Container_scheme"

definition heap_of :: "('w, 'r, 'h, 'c) cstate \<Rightarrow> ('w, 'r, 'h) heap" where
  "heap_of st = \<lparr>world = world st, h_Config = h_Config st, h_HostConfig = h_HostConfig st,
                 logged = logged st\<rparr>"

text \<open>The fields of \<^verbatim>\<open>params\<close> that are values.\<close>

record ContainerCreateConfig =
  Name :: string
  p_Platform :: string
  p_NetworkingConfig :: "NetworkingConfig option"

record CreateRWLayerOpts =
  o_MountLabel :: string
  o_InitFunc :: "string option"
  o_StorageOpt :: "(string \<times> string) list"

text \<open>
  The functions of the daemon and of other packages that \<^verbatim>\<open>create\<close> and
  \<^verbatim>\<open>setRWLayer\<close> call. A function that gets the container may change every object
  reachable from it. The stores are those of the platform that is the first argument
  of \<open>imageStore_Get\<close> and \<open>CreateRWLayer\<close>; \<open>MkdirAndChown\<close> makes the directory with
  the mode and the root identities the daemon holds.
\<close>

record ('w, 'r, 'h, 'c) create_env =
  GOOS :: string
  LCOWSupported :: bool
  c_GetImage :: "'w \<Rightarrow> string \<Rightarrow> error + 'r Image"
  c_merge :: "'r merge_fn"
  mergeAndVerifyLogConfig :: "('w, 'r, 'h) heap \<Rightarrow> error option \<times> ('w, 'r, 'h) heap"
  newContainer :: "string \<Rightarrow> string \<Rightarrow> string \<Rightarrow> bool \<Rightarrow> ('w, 'r, 'h) heap
                     \<Rightarrow> (error + 'c Container_scheme) \<times> ('w, 'r, 'h) heap"
  cleanupContainer :: "bool \<Rightarrow> bool \<Rightarrow> ('w, 'r, 'h, 'c) cstate
                     \<Rightarrow> error option \<times> ('w, 'r, 'h, 'c) cstate"
  setSecurityOptions :: "('w, 'r, 'h, 'c) cstate \<Rightarrow> error option \<times> ('w, 'r, 'h, 'c) cstate"
  imageStore_Get :: "string \<Rightarrow> 'w \<Rightarrow> string \<Rightarrow> error + 'r Image"
  getLayerInit :: string
  CreateRWLayer :: "string \<Rightarrow> string \<Rightarrow> string list \<Rightarrow> CreateRWLayerOpts \<Rightarrow> 'w
                     \<Rightarrow> (error + string) \<times> 'w"
  MkdirAndChown :: "string \<Rightarrow> 'w \<Rightarrow> error option \<times> 'w"
  CheckpointDir :: "'c Container_scheme \<Rightarrow> string"
  setHostConfig :: "('w, 'r, 'h, 'c) cstate \<Rightarrow> error option \<times> ('w, 'r, 'h, 'c) cstate"
  createContainerPlatformSpecificSettings ::
    "('w, 'r, 'h, 'c) cstate \<Rightarrow> error option \<times> ('w, 'r, 'h, 'c) cstate"
  SetDefaultNetModeIfBlank :: "('w, 'r, 'h, 'c) cstate \<Rightarrow> ('w, 'r, 'h, 'c) cstate"
  updateContainerNetworkSettings ::
    "(string \<times> EndpointSettings option) list option \<Rightarrow> ('w, 'r, 'h, 'c) cstate
       \<Rightarrow> ('w, 'r, 'h, 'c) cstate"
  Register :: "('w, 'r, 'h, 'c) cstate \<Rightarrow> error option \<times> ('w, 'r, 'h, 'c) cstate"
  stateCtr_set :: "string \<Rightarrow> string \<Rightarrow> ('w, 'r, 'h, 'c) cstate \<Rightarrow> ('w, 'r, 'h, 'c) cstate"
  LogContainerEvent :: "string \<Rightarrow> ('w, 'r, 'h, 'c) cstate \<Rightarrow> ('w, 'r, 'h, 'c) cstate"

definition setRWLayer ::
  "('w, 'r, 'h, 'c) create_env \<Rightarrow> string \<Rightarrow> ('w, 'r, 'h, 'c) cstate
     \<Rightarrow> error option \<times> ('w, 'r, 'h, 'c) cstate" where
  "setRWLayer env runtime st =
     (case (if ImageID (container st) \<noteq> '''' then
              (case imageStore_Get env (ctr_Platform (container st)) (world st)
                      (ImageID (container st)) of
                 Inl err \<Rightarrow> Inl err
               | Inr img \<Rightarrow> Inr (img_DiffIDs img))
            else Inr []) of
        Inl err \<Rightarrow> (Some err, st)
      | Inr layerID \<Rightarrow>
          (let initFunc = (if runtime = ''bare'' then None else Some (getLayerInit env));
               rwLayerOpts = \<lparr>o_MountLabel = MountLabel (container st),
                              o_InitFunc = initFunc,
                              o_StorageOpt = ctr_StorageOpt (container st)\<rparr>
           in case CreateRWLayer env (ctr_Platform (container st)) (ID (container st)) layerID
                     rwLayerOpts (world st) of
                (Inl err, w) \<Rightarrow> (Some err, st\<lparr>world := w\<rparr>)
              | (Inr rwLayer, w) \<Rightarrow>
                  (None, st\<lparr>world := w,
                            container := (container st)\<lparr>RWLayer := Some rwLayer\<rparr>\<rparr>)))"

text \<open>
  Lines 83 to 136: everything up to the allocation of the container object. The
  result is an error with the objects as they are then, or the state with the new
  container.
\<close>

definition create_prepare ::
  "('w, 'r, 'h, 'c) create_env \<Rightarrow> ContainerCreateConfig \<Rightarrow> bool \<Rightarrow> ('w, 'r, 'h) heap
     \<Rightarrow> (error \<times> ('w, 'r, 'h) heap) + ('w, 'r, 'h, 'c) cstate" where
  "create_prepare env params managed h =
     (let platform = (if LCOWSupported env then ''linux''
                      else if p_Platform params = '''' then GOOS env else p_Platform params)
      in case (if Image (h_Config h) \<noteq> '''' then
                 (case c_GetImage env (world h) (Image (h_Config h)) of
                    Inl err \<Rightarrow> Inl err
                  | Inr img \<Rightarrow>
                      if GOOS env = ''solaris'' \<and> img_OS img \<noteq> ''solaris ''
                      then Inl (Errorf ''platform on which parent image was created is not Solaris'')
                      else if GOOS env = ''windows'' \<and> img_OS img = ''linux''
                              \<and> \<not> LCOWSupported env
                      then Inl (Errorf ''platform on which parent image was created is not Windows'')
                      else Inr (Some img, img_ID img))
               else Inr (None, '''')) of
           Inl err \<Rightarrow> Inl (err, h)
         | Inr (img, imgID) \<Rightarrow>
             if img \<noteq> None \<and> platform \<noteq> img_Platform (the img) \<and> \<not> LCOWSupported env
             then Inl (Errorf (''cannot create a '' @ platform @ '' container from a ''
                               @ img_Platform (the img) @ '' image''), h)
             else
               (case mergeAndVerifyConfig (c_merge env) (h_Config h) img of
                  (Some err, config) \<Rightarrow> Inl (err, h\<lparr>h_Config := config\<rparr>)
                | (None, config) \<Rightarrow>
               (case mergeAndVerifyLogConfig env (h\<lparr>h_Config := config\<rparr>) of
                  (Some err, h1) \<Rightarrow> Inl (err, h1)
                | (None, h1) \<Rightarrow>
               (case newContainer env (Name params) platform imgID managed h1 of
                  (Inl err, h2) \<Rightarrow> Inl (err, h2)
                | (Inr c, h2) \<Rightarrow>
                    Inr \<lparr>world = world h2, h_Config = h_Config h2,
                         h_HostConfig = h_HostConfig h2, logged = logged h2,
                         container = c\<rparr>))))"

text \<open>
  Lines 145 to 183: the calls that the deferred function of line 137 guards. The
  result is the error of the first call that fails, with the state it left.
\<close>

definition create_guarded ::
  "('w, 'r, 'h, 'c) create_env \<Rightarrow> ContainerCreateConfig \<Rightarrow> ('w, 'r, 'h, 'c) cstate
     \<Rightarrow> error option \<times> ('w, 'r, 'h, 'c) cstate" where
  "create_guarded env params st0 =
     (case setSecurityOptions env st0 of
        (Some err, st) \<Rightarrow> (Some err, st)
      | (None, st1) \<Rightarrow>
     (case setRWLayer env (Runtime (h_HostConfig st1))
             (st1\<lparr>container := (container st1)\<lparr>ctr_StorageOpt := StorageOpt (h_HostConfig st1)\<rparr>\<rparr>) of
        (Some err, st) \<Rightarrow> (Some err, st)
      | (None, st2) \<Rightarrow>
     (case MkdirAndChown env (Root (container st2)) (world st2) of
        (Some err, w) \<Rightarrow> (Some err, st2\<lparr>world := w\<rparr>)
      | (None, w3) \<Rightarrow>
     (case MkdirAndChown env (CheckpointDir env (container st2)) w3 of
        (Some err, w) \<Rightarrow> (Some err, st2\<lparr>world := w\<rparr>)
      | (None, w4) \<Rightarrow>
     (case setHostConfig env (st2\<lparr>world := w4\<rparr>) of
        (Some err, st) \<Rightarrow> (Some err, st)
      | (None, st5) \<Rightarrow>
     (case createContainerPlatformSpecificSettings env st5 of
        (Some err, st) \<Rightarrow> (Some err, st)
      | (None, st6) \<Rightarrow>
          (let endpointsConfigs =
                 (case p_NetworkingConfig params of
                    None \<Rightarrow> None
                  | Some nc \<Rightarrow> Some (EndpointsConfig nc))
           in Register env
                (updateContainerNetworkSettings env endpointsConfigs
                   (SetDefaultNetModeIfBlank env st6)))))))))"

text \<open>
  \<^verbatim>\<open>create\<close>. The deferred function of line 137 runs when the guarded part has
  returned: it calls \<^verbatim>\<open>cleanupContainer\<close> if the error to return is not \<^verbatim>\<open>nil\<close>, and
  logs the error of the cleanup.
\<close>

definition create ::
  "('w, 'r, 'h, 'c) create_env \<Rightarrow> ContainerCreateConfig \<Rightarrow> bool \<Rightarrow> ('w, 'r, 'h) heap
     \<Rightarrow> (error + 'c Container_scheme) \<times> ('w, 'r, 'h) heap" where
  "create env params managed h =
     (case create_prepare env params managed h of
        Inl (err, h') \<Rightarrow> (Inl err, h')
      | Inr st0 \<Rightarrow>
          (case create_guarded env params st0 of
             (Some retErr, st) \<Rightarrow>
               (case cleanupContainer env True True st of
                  (Some err, st') \<Rightarrow> (Inl retErr, heap_of (st'\<lparr>logged := logged st' @ [err]\<rparr>))
                | (None, st') \<Rightarrow> (Inl retErr, heap_of st'))
           | (None, st) \<Rightarrow>
               (let st' = LogContainerEvent env ''create''
                            (stateCtr_set env (ID (container st)) ''stopped'' st)
                in (Inr (container st'), heap_of st'))))"

subsection \<open>Notions the properties are stated with\<close>

text \<open>
  The guarded part of \<^verbatim>\<open>create\<close> as the list of its seven calls, each with the
  assignments that precede it, and the run of such a list: up to the first error.
\<close>

definition guarded ::
  "('w, 'r, 'h, 'c) create_env \<Rightarrow> ContainerCreateConfig
     \<Rightarrow> (('w, 'r, 'h, 'c) cstate \<Rightarrow> error option \<times> ('w, 'r, 'h, 'c) cstate) list" where
  "guarded env params =
     [setSecurityOptions env,
      (\<lambda>st. setRWLayer env (Runtime (h_HostConfig st))
         (st\<lparr>container := (container st)\<lparr>ctr_StorageOpt := StorageOpt (h_HostConfig st)\<rparr>\<rparr>)),
      (\<lambda>st. case MkdirAndChown env (Root (container st)) (world st) of
               (err, w) \<Rightarrow> (err, st\<lparr>world := w\<rparr>)),
      (\<lambda>st. case MkdirAndChown env (CheckpointDir env (container st)) (world st) of
               (err, w) \<Rightarrow> (err, st\<lparr>world := w\<rparr>)),
      setHostConfig env,
      createContainerPlatformSpecificSettings env,
      (\<lambda>st. Register env
         (updateContainerNetworkSettings env (map_option EndpointsConfig (p_NetworkingConfig params))
            (SetDefaultNetModeIfBlank env st)))]"

fun runSteps :: "('s \<Rightarrow> error option \<times> 's) list \<Rightarrow> 's \<Rightarrow> error option \<times> 's" where
  "runSteps [] st = (None, st)"
| "runSteps (f # fs) st =
     (case f st of
        (Some err, st') \<Rightarrow> (Some err, st')
      | (None, st') \<Rightarrow> runSteps fs st')"

text \<open>The state after the deferred function has run on a failed run that ended in \<open>st\<close>.\<close>

definition rolledBack ::
  "('w, 'r, 'h, 'c) create_env \<Rightarrow> ('w, 'r, 'h, 'c) cstate \<Rightarrow> ('w, 'r, 'h) heap" where
  "rolledBack env st =
     (case cleanupContainer env True True st of
        (Some err, st') \<Rightarrow> heap_of (st'\<lparr>logged := logged st' @ [err]\<rparr>)
      | (None, st') \<Rightarrow> heap_of st')"

text \<open>
  The size \<^verbatim>\<open>l.DiffSize()\<close> gives for the destination layer at a changed position \<open>i\<close>,
  and the size \<^verbatim>\<open>newLayer.DiffSize()\<close> gives for a registered delta layer; 0 for a
  common position and for an empty layer.
\<close>

definition sizeOf :: "error + int64 \<Rightarrow> int64" where
  "sizeOf r = (case r of Inl err \<Rightarrow> 0 | Inr n \<Rightarrow> n)"

definition changedSize :: "'r delta_env \<Rightarrow> string list \<Rightarrow> 'r Image \<Rightarrow> nat \<times> string \<Rightarrow> int64" where
  "changedSize env srcDiffIDs dstImg p =
     (if commonLayer srcDiffIDs (fst p) (snd p) then 0
      else (case ls_Get env (img_Platform dstImg) (take (fst p + 1) (img_DiffIDs dstImg)) of
              Inl err \<Rightarrow> 0
            | Inr l \<Rightarrow> sizeOf (l_DiffSize l)))"

definition deltaSizeOf :: "layerData \<times> string list \<times> Layer \<Rightarrow> int64" where
  "deltaSizeOf e =
     (case e of
        (EmptyLayerTar, parent, l) \<Rightarrow> 0
      | (DeltaPipe sig input, parent, l) \<Rightarrow> sizeOf (l_DiffSize l))"

definition spec_totalSize :: "'r delta_env \<Rightarrow> 'r Image \<Rightarrow> 'r Image \<Rightarrow> int64" where
  "spec_totalSize env srcImg dstImg =
     sum_list (map (changedSize env (img_DiffIDs srcImg) dstImg)
                 (List.enumerate 0 (img_DiffIDs dstImg)))"

definition spec_deltaSize :: "delta_state \<Rightarrow> int64" where
  "spec_deltaSize s = sum_list (map deltaSizeOf (registered s))"

definition initial :: delta_state where
  "initial = \<lparr>deltaRootFS = [], statTotalSize = 0, statDeltaSize = 0, registered = []\<rparr>"

subsection \<open>Concrete runs\<close>

text \<open>
  A small instance of the stores for runs of \<^verbatim>\<open>DeltaCreate\<close>: two images \<^verbatim>\<open>src\<close> and
  \<^verbatim>\<open>dst\<close> with the given diff identities, every destination layer of size \<open>inSize\<close>,
  every registered delta layer of size \<open>outSize\<close>.
\<close>

definition demo_image :: "string \<Rightarrow> string list \<Rightarrow> unit Image" where
  "demo_image name diffIDs =
     \<lparr>img_ID = name, img_OS = ''linux'', img_Platform = ''linux'', img_Config = None,
      img_DiffIDs = diffIDs, img_RawJSON = ''{}''\<rparr>"

definition demo_layer :: "int64 \<Rightarrow> string \<Rightarrow> Layer" where
  "demo_layer n d = \<lparr>l_TarStream = Inr ''tar'', l_DiffSize = Inr n, l_DiffID = d,
                     l_Platform = ''linux''\<rparr>"

definition demo_env :: "string list \<Rightarrow> string list \<Rightarrow> int64 \<Rightarrow> int64 \<Rightarrow> unit delta_env" where
  "demo_env srcIDs dstIDs inSize outSize =
     \<lparr>GetImage = (\<lambda>ref. if ref = ''src'' then Inr (demo_image ''src'' srcIDs)
                        else if ref = ''dst'' then Inr (demo_image ''dst'' dstIDs)
                        else Inl (Errorf ''no image'')),
      GetTarSeekStream = (\<lambda>platform imgID. Inr ''tar''),
      SeekerSize = (\<lambda>srcData. Inr 3),
      Signature = (\<lambda>srcData. Inr ''sig''),
      EmptyLayerPlatform = '''',
      ls_Get = (\<lambda>platform chain. Inr (demo_layer inSize (last chain))),
      TempFile = (\<lambda>i. None),
      ls_Register = (\<lambda>platform content parent p.
                       case content of
                         EmptyLayerTar \<Rightarrow> Inr (demo_layer 0 ''empty'')
                       | DeltaPipe sig input \<Rightarrow> Inr (demo_layer outSize ''delta'')),
      Marshal = (\<lambda>config. Inr ''json''),
      is_Create = (\<lambda>platform rawConfig. Inr ''deltaid'')\<rparr>"

text \<open>
  A small IP parser: it knows one IPv4 and one IPv6 address, and an address is the
  number of its family.
\<close>

definition demo_netlib :: "nat netlib" where
  "demo_netlib =
     \<lparr>ParseIP = (\<lambda>s. if s = ''10.0.0.1'' then Some 4
                      else if s = ''fe80::1'' then Some 6 else None),
      To4 = (\<lambda>ip. if ip = Some 4 then Some 4 else None)\<rparr>"

text \<open>
  Two peer containers, \<^verbatim>\<open>a\<close> without a process label and \<^verbatim>\<open>b\<close> with one, and a
  label library that gives \<^verbatim>\<open>nil\<close> for the empty label and four parts otherwise.
\<close>

definition demo_container :: "string \<Rightarrow> Container" where
  "demo_container label =
     \<lparr>ID = ''id'', ImageID = '''', ctr_Platform = ''linux'', ProcessLabel = label,
      MountLabel = '''', Root = ''/root'', ctr_StorageOpt = [], RWLayer = None\<rparr>"

definition demo_seclib :: "unit seclib" where
  "demo_seclib =
     \<lparr>ipc_IsHost = (\<lambda>n. n = ''host''),
      pid_IsHost = (\<lambda>n. n = ''host''),
      ipc_Container = (\<lambda>n. if take 10 n = ''container:'' then drop 10 n else ''''),
      pid_Container = (\<lambda>n. if take 10 n = ''container:'' then drop 10 n else ''''),
      GetContainer = (\<lambda>name. if name = ''a'' then Inr (demo_container '''')
                             else if name = ''b'' then Inr (demo_container ''u:r:t:s0'')
                             else if name = ''c'' then Inr (demo_container ''u:r:t:s1'')
                             else Inl (Errorf ''No such container'')),
      DisableSecOpt = Some [''disable''],
      DupSecOpt = (\<lambda>label. if label = '''' then None
                            else Some [''user:u'', ''role:r'', ''type:t'', ''level:'' @ drop 6 label])\<rparr>"

definition demo_hostConfig :: "string \<Rightarrow> string \<Rightarrow> HostConfig" where
  "demo_hostConfig ipc pid =
     \<lparr>SecurityOpt = [], IpcMode = ipc, PidMode = pid, Privileged = False, StorageOpt = [],
      Runtime = ''''\<rparr>"

section \<open>Properties\<close>

subsection \<open>The entrypoint reset and the command check\<close>

lemma single_empty: "(len s = 1 \<and> elem s 0 = '''') = (s = Some [''''])"
proof (cases s)
  case None
  then show ?thesis by (simp add: len_def)
next
  case (Some xs)
  then show ?thesis
    by (cases xs) (auto simp: len_def elem_def)
qed

lemma single_empty_Suc: "(len s = Suc 0 \<and> elem s 0 = []) = (s = Some [[]])"
  using single_empty [of s] by simp

lemma mergeAndVerifyConfig_ok:
  assumes "\<not> mergeFailed merge config img"
  shows "mergeAndVerifyConfig merge config img =
     (let m = merged merge config img;
          c = (if Entrypoint m = Some [''''] then m\<lparr>Entrypoint := None\<rparr> else m)
      in (if len (Entrypoint c) = 0 \<and> len (Cmd c) = 0
          then Some (Errorf ''No command specified'') else None, c))"
proof (cases "case img of None \<Rightarrow> None | Some i \<Rightarrow> img_Config i")
  case None
  then show ?thesis
    by (simp add: mergeAndVerifyConfig_def merged_def Let_def single_empty_Suc)
next
  case (Some ic)
  obtain e c where mc: "merge config ic = (e, c)" by (cases "merge config ic")
  with Some assms have "e = None" by (simp add: mergeFailed_def)
  with Some mc show ?thesis
    by (simp add: mergeAndVerifyConfig_def merged_def Let_def single_empty_Suc)
qed


text \<open>
  Claim C7. When the merge with the image's config has not failed: an entrypoint that
  is exactly the list of the one empty string after the merge is cleared, any other
  entrypoint and the command stay as the merge left them, and
  \<^verbatim>\<open>mergeAndVerifyConfig\<close> returns the error \<^verbatim>\<open>No command specified\<close> exactly when
  the resulting entrypoint and the resulting command are both empty; otherwise it
  returns no error.
\<close>

theorem mergeAndVerifyConfig_entrypoint_command:
  assumes "\<not> mergeFailed merge config img"
  shows "(Entrypoint (merged merge config img) = Some [''''] \<longrightarrow>
            Entrypoint (snd (mergeAndVerifyConfig merge config img)) = None)
       \<and> (Entrypoint (merged merge config img) \<noteq> Some [''''] \<longrightarrow>
            Entrypoint (snd (mergeAndVerifyConfig merge config img))
              = Entrypoint (merged merge config img))
       \<and> Cmd (snd (mergeAndVerifyConfig merge config img)) = Cmd (merged merge config img)
       \<and> (fst (mergeAndVerifyConfig merge config img) = Some (Errorf ''No command specified'')
            \<longleftrightarrow> len (Entrypoint (snd (mergeAndVerifyConfig merge config img))) = 0
                \<and> len (Cmd (snd (mergeAndVerifyConfig merge config img))) = 0)
       \<and> (fst (mergeAndVerifyConfig merge config img) \<noteq> Some (Errorf ''No command specified'')
            \<longrightarrow> fst (mergeAndVerifyConfig merge config img) = None)"
  by (simp add: mergeAndVerifyConfig_ok [OF assms] Let_def)

text \<open>
  A run of it: the user gives the entrypoint \<^verbatim>\<open>[""]\<close> and no command, the image has
  a config without a command, and the merge copies the image's command.
\<close>

theorem mergeAndVerifyConfig_entrypoint_command_witness:
  "Entrypoint (snd (mergeAndVerifyConfig (\<lambda>u i. (None, u\<lparr>Cmd := Cmd i\<rparr>))
       \<lparr>Image = ''busybox'', Entrypoint = Some [''''], Cmd = None\<rparr>
       (Some \<lparr>img_ID = ''id'', img_OS = ''linux'', img_Platform = ''linux'',
              img_Config = Some \<lparr>Image = '''', Entrypoint = None, Cmd = None\<rparr>,
              img_DiffIDs = [], img_RawJSON = ''''\<rparr>))) = None
   \<and> fst (mergeAndVerifyConfig (\<lambda>u i. (None, u\<lparr>Cmd := Cmd i\<rparr>))
       \<lparr>Image = ''busybox'', Entrypoint = Some [''''], Cmd = None\<rparr>
       (Some \<lparr>img_ID = ''id'', img_OS = ''linux'', img_Platform = ''linux'',
              img_Config = Some \<lparr>Image = '''', Entrypoint = None, Cmd = None\<rparr>,
              img_DiffIDs = [], img_RawJSON = ''''\<rparr>)) = Some (Errorf ''No command specified'')"
  using mergeAndVerifyConfig_entrypoint_command
    [of "\<lambda>u i. (None, u\<lparr>Cmd := Cmd i\<rparr>)"
        "\<lparr>Image = ''busybox'', Entrypoint = Some [''''], Cmd = None\<rparr>"
        "Some \<lparr>img_ID = ''id'', img_OS = ''linux'', img_Platform = ''linux'',
              img_Config = Some \<lparr>Image = '''', Entrypoint = None, Cmd = None\<rparr>,
              img_DiffIDs = [], img_RawJSON = ''''\<rparr>"]
  by (simp add: mergeFailed_def merged_def len_def)

subsection \<open>What creation does to the caller's process config\<close>




subsection \<open>Validation of the networking config\<close>

lemma verifyEndpoints_single: "verifyEndpoints lib [(k, v)] = verifyEndpoint lib v"
  by (simp split: option.splits)

text \<open>
  Claim C6. \<^verbatim>\<open>verifyNetworkingConfig\<close> succeeds on \<^verbatim>\<open>nil\<close> and on a config without
  endpoints. With two or more endpoints it fails, and the message of the error is the
  fixed text followed by the names of the supplied networks, joined by a comma and a
  space. With exactly one endpoint it succeeds when the endpoint or its IPAM config is
  \<^verbatim>\<open>nil\<close>; otherwise it fails with the IPv4 message when the IPv4 address is not empty
  and does not parse to an address with a four-byte form, with the IPv6 message when
  the IPv4 address passes and the IPv6 address is not empty and does not parse or has
  a four-byte form, and in no other case.
\<close>

theorem verifyNetworkingConfig_cases:
  "verifyNetworkingConfig lib None = None
   \<and> (EndpointsConfig c = [] \<longrightarrow> verifyNetworkingConfig lib (Some c) = None)
   \<and> (2 \<le> length (EndpointsConfig c) \<longrightarrow>
        verifyNetworkingConfig lib (Some c) =
          Some (BadRequestError (Errorf (''Container cannot be connected to network endpoints: ''
                                         @ Join (map fst (EndpointsConfig c)) '', ''))))
   \<and> (EndpointsConfig c = [(k, v)] \<longrightarrow>
        (v = None \<or> (\<exists>s. v = Some s \<and> IPAMConfig s = None) \<longrightarrow>
           verifyNetworkingConfig lib (Some c) = None)
      \<and> (\<forall>s ipam. v = Some s \<and> IPAMConfig s = Some ipam \<longrightarrow>
           (IPv4Address ipam \<noteq> '''' \<and> To4 lib (ParseIP lib (IPv4Address ipam)) = None \<longrightarrow>
              verifyNetworkingConfig lib (Some c) =
                Some (BadRequestError (Errorf (''invalid IPv4 address: '' @ IPv4Address ipam))))
         \<and> (\<not> (IPv4Address ipam \<noteq> '''' \<and> To4 lib (ParseIP lib (IPv4Address ipam)) = None)
              \<and> IPv6Address ipam \<noteq> ''''
              \<and> (ParseIP lib (IPv6Address ipam) = None
                   \<or> To4 lib (ParseIP lib (IPv6Address ipam)) \<noteq> None) \<longrightarrow>
              verifyNetworkingConfig lib (Some c) =
                Some (BadRequestError (Errorf (''invalid IPv6 address: '' @ IPv6Address ipam))))
         \<and> (verifyNetworkingConfig lib (Some c) \<noteq> None \<longleftrightarrow>
              (IPv4Address ipam \<noteq> '''' \<and> To4 lib (ParseIP lib (IPv4Address ipam)) = None)
              \<or> (IPv6Address ipam \<noteq> ''''
                  \<and> (ParseIP lib (IPv6Address ipam) = None
                       \<or> To4 lib (ParseIP lib (IPv6Address ipam)) \<noteq> None)))))"
proof (intro conjI impI allI)
  show "verifyNetworkingConfig lib None = None"
    by (simp add: verifyNetworkingConfig_def)
next
  assume "EndpointsConfig c = []"
  then show "verifyNetworkingConfig lib (Some c) = None"
    by (simp add: verifyNetworkingConfig_def)
next
  assume "2 \<le> length (EndpointsConfig c)"
  then have "length (EndpointsConfig c) \<noteq> 0" "length (EndpointsConfig c) \<noteq> 1" by auto
  then show "verifyNetworkingConfig lib (Some c) =
      Some (BadRequestError (Errorf (''Container cannot be connected to network endpoints: ''
                                     @ Join (map fst (EndpointsConfig c)) '', '')))"
    by (simp add: verifyNetworkingConfig_def Let_def del: length_0_conv)
next
  assume "EndpointsConfig c = [(k, v)]" "v = None \<or> (\<exists>s. v = Some s \<and> IPAMConfig s = None)"
  then show "verifyNetworkingConfig lib (Some c) = None"
    by (auto simp: verifyNetworkingConfig_def verifyEndpoint_def)
next
  fix s ipam
  assume "EndpointsConfig c = [(k, v)]" "v = Some s \<and> IPAMConfig s = Some ipam"
    "IPv4Address ipam \<noteq> '''' \<and> To4 lib (ParseIP lib (IPv4Address ipam)) = None"
  then show "verifyNetworkingConfig lib (Some c) =
                Some (BadRequestError (Errorf (''invalid IPv4 address: '' @ IPv4Address ipam)))"
    by (simp add: verifyNetworkingConfig_def verifyEndpoint_def)
next
  fix s ipam
  assume "EndpointsConfig c = [(k, v)]" "v = Some s \<and> IPAMConfig s = Some ipam"
    "\<not> (IPv4Address ipam \<noteq> '''' \<and> To4 lib (ParseIP lib (IPv4Address ipam)) = None)
              \<and> IPv6Address ipam \<noteq> ''''
              \<and> (ParseIP lib (IPv6Address ipam) = None
                   \<or> To4 lib (ParseIP lib (IPv6Address ipam)) \<noteq> None)"
  then show "verifyNetworkingConfig lib (Some c) =
                Some (BadRequestError (Errorf (''invalid IPv6 address: '' @ IPv6Address ipam)))"
    by (auto simp: verifyNetworkingConfig_def verifyEndpoint_def Let_def)
next
  fix s ipam
  assume "EndpointsConfig c = [(k, v)]" "v = Some s \<and> IPAMConfig s = Some ipam"
  then show "(verifyNetworkingConfig lib (Some c) \<noteq> None) =
              (IPv4Address ipam \<noteq> '''' \<and> To4 lib (ParseIP lib (IPv4Address ipam)) = None
              \<or> (IPv6Address ipam \<noteq> ''''
                  \<and> (ParseIP lib (IPv6Address ipam) = None
                       \<or> To4 lib (ParseIP lib (IPv6Address ipam)) \<noteq> None)))"
    by (auto simp: verifyNetworkingConfig_def verifyEndpoint_def Let_def)
qed

text \<open>
  Runs of it: two networks; the address \<^verbatim>\<open>10.0.0.999\<close>; an IPv4 address given as the
  IPv6 address; and a valid pair of addresses.
\<close>

theorem verifyNetworkingConfig_cases_witness:
  "verifyNetworkingConfig demo_netlib
      (Some \<lparr>EndpointsConfig = [(''front'', None), (''back'', None)]\<rparr>)
     = Some (BadRequestError
               (Errorf ''Container cannot be connected to network endpoints: front, back''))
   \<and> verifyNetworkingConfig demo_netlib
      (Some \<lparr>EndpointsConfig = [(''front'',
          Some \<lparr>IPAMConfig = Some \<lparr>IPv4Address = ''10.0.0.999'', IPv6Address = ''''\<rparr>\<rparr>)]\<rparr>)
     = Some (BadRequestError (Errorf ''invalid IPv4 address: 10.0.0.999''))
   \<and> verifyNetworkingConfig demo_netlib
      (Some \<lparr>EndpointsConfig = [(''front'',
          Some \<lparr>IPAMConfig = Some \<lparr>IPv4Address = ''10.0.0.1'', IPv6Address = ''10.0.0.1''\<rparr>\<rparr>)]\<rparr>)
     = Some (BadRequestError (Errorf ''invalid IPv6 address: 10.0.0.1''))
   \<and> verifyNetworkingConfig demo_netlib
      (Some \<lparr>EndpointsConfig = [(''front'',
          Some \<lparr>IPAMConfig = Some \<lparr>IPv4Address = ''10.0.0.1'', IPv6Address = ''fe80::1''\<rparr>\<rparr>)]\<rparr>)
     = None"
  using verifyNetworkingConfig_cases
      [of demo_netlib "\<lparr>EndpointsConfig = [(''front'', None), (''back'', None)]\<rparr>"]
    verifyNetworkingConfig_cases
      [of demo_netlib "\<lparr>EndpointsConfig = [(''front'',
          Some \<lparr>IPAMConfig = Some \<lparr>IPv4Address = ''10.0.0.999'', IPv6Address = ''''\<rparr>\<rparr>)]\<rparr>"
          "''front''"
          "Some \<lparr>IPAMConfig = Some \<lparr>IPv4Address = ''10.0.0.999'', IPv6Address = ''''\<rparr>\<rparr>"]
    verifyNetworkingConfig_cases
      [of demo_netlib "\<lparr>EndpointsConfig = [(''front'',
          Some \<lparr>IPAMConfig = Some \<lparr>IPv4Address = ''10.0.0.1'', IPv6Address = ''10.0.0.1''\<rparr>\<rparr>)]\<rparr>"
          "''front''"
          "Some \<lparr>IPAMConfig = Some \<lparr>IPv4Address = ''10.0.0.1'', IPv6Address = ''10.0.0.1''\<rparr>\<rparr>"]
    verifyNetworkingConfig_cases
      [of demo_netlib "\<lparr>EndpointsConfig = [(''front'',
          Some \<lparr>IPAMConfig = Some \<lparr>IPv4Address = ''10.0.0.1'', IPv6Address = ''fe80::1''\<rparr>\<rparr>)]\<rparr>"
          "''front''"
          "Some \<lparr>IPAMConfig = Some \<lparr>IPv4Address = ''10.0.0.1'', IPv6Address = ''fe80::1''\<rparr>\<rparr>"]
  by (simp add: demo_netlib_def)

subsection \<open>Security labels of shared namespaces\<close>

lemma labelsLoop_char:
  "length pidLabel \<le> length ipcLabel \<Longrightarrow>
   labelsLoop pidLabel ipcLabel i =
     (if \<exists>j. i \<le> j \<and> j < length pidLabel \<and> pidLabel ! j \<noteq> ipcLabel ! j
      then Some (Errorf ''--ipc and --pid containers SELinux labels aren't the same'')
      else None)"
proof (induction pidLabel ipcLabel i rule: labelsLoop.induct)
  case (1 pidLabel ipcLabel i)
  show ?case
  proof (cases "i < length pidLabel")
    case False
    then show ?thesis by (subst labelsLoop.simps) auto
  next
    case inb: True
    show ?thesis
    proof (cases "pidLabel ! i = ipcLabel ! i")
      case False
      with inb "1.prems" show ?thesis by (subst labelsLoop.simps) auto
    next
      case True
      have "(\<exists>j. i \<le> j \<and> j < length pidLabel \<and> pidLabel ! j \<noteq> ipcLabel ! j)
            = (\<exists>j. i + 1 \<le> j \<and> j < length pidLabel \<and> pidLabel ! j \<noteq> ipcLabel ! j)"
        using True by (metis Suc_eq_plus1 Suc_leI le_neq_implies_less Suc_leD)
      moreover have "labelsLoop pidLabel ipcLabel i = labelsLoop pidLabel ipcLabel (i + 1)"
        using inb True "1.prems" by (subst labelsLoop.simps) simp
      ultimately show ?thesis
        using "1.IH" [OF inb _ _ "1.prems"] inb True "1.prems" by simp
    qed
  qed
qed

lemma wrapped_prefix:
  "toHostConfigSelinuxLabels x = Some ls \<Longrightarrow> l \<in> set ls \<Longrightarrow> take 6 l = ''label=''"
  by (cases x) (auto simp: toHostConfigSelinuxLabels_def)

lemma generateSecurityOpt_pid_result:
  "generateSecurityOpt_pid lib ic pc ipcLabel = Inr r \<Longrightarrow>
     r = None \<or> (\<exists>x. r = toHostConfigSelinuxLabels x)"
  by (auto simp: generateSecurityOpt_pid_def Let_def split: if_splits sum.splits option.splits)

lemma generateSecurityOpt_result:
  "generateSecurityOpt lib hostConfig = Inr r \<Longrightarrow>
     r = None \<or> (\<exists>x. r = toHostConfigSelinuxLabels x)"
  by (auto simp: generateSecurityOpt_def Let_def dest: generateSecurityOpt_pid_result
        split: if_splits sum.splits)

lemma generateSecurityOpt_both:
  assumes "\<not> list_ex (\<lambda>opt. SplitHead opt = ''label'') (SecurityOpt hostConfig)"
    and "\<not> ipc_IsHost lib (IpcMode hostConfig)" and "\<not> pid_IsHost lib (PidMode hostConfig)"
    and "\<not> Privileged hostConfig"
    and "ipc_Container lib (IpcMode hostConfig) \<noteq> ''''"
    and "pid_Container lib (PidMode hostConfig) \<noteq> ''''"
    and "GetContainer lib (ipc_Container lib (IpcMode hostConfig)) = Inr c1"
    and "GetContainer lib (pid_Container lib (PidMode hostConfig)) = Inr c2"
  shows "generateSecurityOpt lib hostConfig =
     (case (DupSecOpt lib (ProcessLabel c2), DupSecOpt lib (ProcessLabel c1)) of
        (Some pidLabel, Some ipcLabel) \<Rightarrow>
          (case labelsLoop pidLabel ipcLabel 0 of
             Some err \<Rightarrow> Inl err
           | None \<Rightarrow> Inr (Some (map (\<lambda>l. ''label='' @ l) pidLabel)))
      | _ \<Rightarrow> Inr None)"
  using assms
  by (simp add: generateSecurityOpt_def generateSecurityOpt_pid_def Let_def
        toHostConfigSelinuxLabels_def split: option.splits)

text \<open>
  Claim C5, amended. Every label of a set that \<^verbatim>\<open>generateSecurityOpt\<close> returns begins
  with \<^verbatim>\<open>label=\<close>. When the IPC and the PID namespace are both shared from peer
  containers (no label option of the caller, no host mode, not privileged, both peers
  found): if the label library gives \<^verbatim>\<open>nil\<close> for one of the two peers, the result is
  no labels and no error; if it gives a set for each and the IPC set is at least as long
  as the PID set, the result is the error that the labels are not the same exactly when
  the two sets differ at some position of the PID set, and the PID peer's set, each label
  with the prefix, when they agree at every such position.
\<close>

theorem generateSecurityOpt_shared:
  "(\<forall>ls. generateSecurityOpt lib hostConfig = Inr (Some ls) \<longrightarrow>
          (\<forall>l \<in> set ls. take 6 l = ''label=''))
   \<and> (\<not> list_ex (\<lambda>opt. SplitHead opt = ''label'') (SecurityOpt hostConfig)
        \<and> \<not> ipc_IsHost lib (IpcMode hostConfig) \<and> \<not> pid_IsHost lib (PidMode hostConfig)
        \<and> \<not> Privileged hostConfig
        \<and> ipc_Container lib (IpcMode hostConfig) \<noteq> ''''
        \<and> pid_Container lib (PidMode hostConfig) \<noteq> ''''
        \<and> GetContainer lib (ipc_Container lib (IpcMode hostConfig)) = Inr c1
        \<and> GetContainer lib (pid_Container lib (PidMode hostConfig)) = Inr c2 \<longrightarrow>
        (DupSecOpt lib (ProcessLabel c1) = None \<or> DupSecOpt lib (ProcessLabel c2) = None \<longrightarrow>
           generateSecurityOpt lib hostConfig = Inr None)
      \<and> (\<forall>ipcLabel pidLabel.
            DupSecOpt lib (ProcessLabel c1) = Some ipcLabel
            \<and> DupSecOpt lib (ProcessLabel c2) = Some pidLabel
            \<and> length pidLabel \<le> length ipcLabel \<longrightarrow>
            (generateSecurityOpt lib hostConfig
               = Inl (Errorf ''--ipc and --pid containers SELinux labels aren't the same'')
             \<longleftrightarrow> (\<exists>i < length pidLabel. pidLabel ! i \<noteq> ipcLabel ! i))
          \<and> ((\<forall>i < length pidLabel. pidLabel ! i = ipcLabel ! i) \<longrightarrow>
               generateSecurityOpt lib hostConfig
                 = Inr (Some (map (\<lambda>l. ''label='' @ l) pidLabel)))))"
proof (intro conjI impI allI ballI)
  fix ls l
  assume "generateSecurityOpt lib hostConfig = Inr (Some ls)" "l \<in> set ls"
  then show "take 6 l = ''label=''"
    using generateSecurityOpt_result [of lib hostConfig "Some ls"] wrapped_prefix [of _ ls l]
    by auto
next
  assume h: "\<not> list_ex (\<lambda>opt. SplitHead opt = ''label'') (SecurityOpt hostConfig)
        \<and> \<not> ipc_IsHost lib (IpcMode hostConfig) \<and> \<not> pid_IsHost lib (PidMode hostConfig)
        \<and> \<not> Privileged hostConfig
        \<and> ipc_Container lib (IpcMode hostConfig) \<noteq> ''''
        \<and> pid_Container lib (PidMode hostConfig) \<noteq> ''''
        \<and> GetContainer lib (ipc_Container lib (IpcMode hostConfig)) = Inr c1
        \<and> GetContainer lib (pid_Container lib (PidMode hostConfig)) = Inr c2"
    and n: "DupSecOpt lib (ProcessLabel c1) = None \<or> DupSecOpt lib (ProcessLabel c2) = None"
  from h have "generateSecurityOpt lib hostConfig =
     (case (DupSecOpt lib (ProcessLabel c2), DupSecOpt lib (ProcessLabel c1)) of
        (Some pidLabel, Some ipcLabel) \<Rightarrow>
          (case labelsLoop pidLabel ipcLabel 0 of
             Some err \<Rightarrow> Inl err
           | None \<Rightarrow> Inr (Some (map (\<lambda>l. ''label='' @ l) pidLabel)))
      | _ \<Rightarrow> Inr None)"
    by (intro generateSecurityOpt_both) simp_all
  with n show "generateSecurityOpt lib hostConfig = Inr None"
    by (auto split: option.splits)
next
  fix ipcLabel pidLabel
  assume h: "\<not> list_ex (\<lambda>opt. SplitHead opt = ''label'') (SecurityOpt hostConfig)
        \<and> \<not> ipc_IsHost lib (IpcMode hostConfig) \<and> \<not> pid_IsHost lib (PidMode hostConfig)
        \<and> \<not> Privileged hostConfig
        \<and> ipc_Container lib (IpcMode hostConfig) \<noteq> ''''
        \<and> pid_Container lib (PidMode hostConfig) \<noteq> ''''
        \<and> GetContainer lib (ipc_Container lib (IpcMode hostConfig)) = Inr c1
        \<and> GetContainer lib (pid_Container lib (PidMode hostConfig)) = Inr c2"
    and d: "DupSecOpt lib (ProcessLabel c1) = Some ipcLabel
            \<and> DupSecOpt lib (ProcessLabel c2) = Some pidLabel
            \<and> length pidLabel \<le> length ipcLabel"
  from h have "generateSecurityOpt lib hostConfig =
     (case (DupSecOpt lib (ProcessLabel c2), DupSecOpt lib (ProcessLabel c1)) of
        (Some pidLabel, Some ipcLabel) \<Rightarrow>
          (case labelsLoop pidLabel ipcLabel 0 of
             Some err \<Rightarrow> Inl err
           | None \<Rightarrow> Inr (Some (map (\<lambda>l. ''label='' @ l) pidLabel)))
      | _ \<Rightarrow> Inr None)"
    by (intro generateSecurityOpt_both) simp_all
  with d have g: "generateSecurityOpt lib hostConfig =
      (if \<exists>j. j < length pidLabel \<and> pidLabel ! j \<noteq> ipcLabel ! j
       then Inl (Errorf ''--ipc and --pid containers SELinux labels aren't the same'')
       else Inr (Some (map (\<lambda>l. ''label='' @ l) pidLabel)))"
    by (simp add: labelsLoop_char)
  show "(generateSecurityOpt lib hostConfig
               = Inl (Errorf ''--ipc and --pid containers SELinux labels aren't the same''))
             = (\<exists>i < length pidLabel. pidLabel ! i \<noteq> ipcLabel ! i)"
    by (simp add: g)
  assume "\<forall>i < length pidLabel. pidLabel ! i = ipcLabel ! i"
  then show "generateSecurityOpt lib hostConfig
                 = Inr (Some (map (\<lambda>l. ''label='' @ l) pidLabel))"
    by (simp add: g)
qed

theorem generateSecurityOpt_shared_witness:
  "generateSecurityOpt demo_seclib (demo_hostConfig ''container:b'' ''container:c'')
     = Inl (Errorf ''--ipc and --pid containers SELinux labels aren't the same'')
   \<and> generateSecurityOpt demo_seclib (demo_hostConfig ''container:b'' ''container:b'')
     = Inr (Some [''label=user:u'', ''label=role:r'', ''label=type:t'', ''label=level:s0''])"
proof
  let ?hc = "demo_hostConfig ''container:b'' ''container:c''"
  have pre: "\<not> list_ex (\<lambda>opt. SplitHead opt = ''label'') (SecurityOpt ?hc)
        \<and> \<not> ipc_IsHost demo_seclib (IpcMode ?hc) \<and> \<not> pid_IsHost demo_seclib (PidMode ?hc)
        \<and> \<not> Privileged ?hc
        \<and> ipc_Container demo_seclib (IpcMode ?hc) \<noteq> ''''
        \<and> pid_Container demo_seclib (PidMode ?hc) \<noteq> ''''
        \<and> GetContainer demo_seclib (ipc_Container demo_seclib (IpcMode ?hc))
            = Inr (demo_container ''u:r:t:s0'')
        \<and> GetContainer demo_seclib (pid_Container demo_seclib (PidMode ?hc))
            = Inr (demo_container ''u:r:t:s1'')"
    by (simp add: demo_seclib_def demo_hostConfig_def)
  have d: "DupSecOpt demo_seclib (ProcessLabel (demo_container ''u:r:t:s0''))
             = Some [''user:u'', ''role:r'', ''type:t'', ''level:s0'']
         \<and> DupSecOpt demo_seclib (ProcessLabel (demo_container ''u:r:t:s1''))
             = Some [''user:u'', ''role:r'', ''type:t'', ''level:s1'']
         \<and> length [''user:u'', ''role:r'', ''type:t'', ''level:s1'']
             \<le> length [''user:u'', ''role:r'', ''type:t'', ''level:s0'']"
    by (simp add: demo_seclib_def demo_container_def)
  note t = generateSecurityOpt_shared [of demo_seclib ?hc "demo_container ''u:r:t:s0''"
      "demo_container ''u:r:t:s1''", THEN conjunct2, THEN mp, OF pre, THEN conjunct2,
      THEN spec, THEN spec, THEN mp, OF d, THEN conjunct1]
  have "\<exists>i < length [''user:u'', ''role:r'', ''type:t'', ''level:s1''].
          [''user:u'', ''role:r'', ''type:t'', ''level:s1''] ! i
            \<noteq> [''user:u'', ''role:r'', ''type:t'', ''level:s0''] ! i"
    by (rule exI [of _ 3]) simp
  with t show "generateSecurityOpt demo_seclib ?hc
     = Inl (Errorf ''--ipc and --pid containers SELinux labels aren't the same'')"
    by (rule iffD2)
next
  let ?hc = "demo_hostConfig ''container:b'' ''container:b''"
  have pre: "\<not> list_ex (\<lambda>opt. SplitHead opt = ''label'') (SecurityOpt ?hc)
        \<and> \<not> ipc_IsHost demo_seclib (IpcMode ?hc) \<and> \<not> pid_IsHost demo_seclib (PidMode ?hc)
        \<and> \<not> Privileged ?hc
        \<and> ipc_Container demo_seclib (IpcMode ?hc) \<noteq> ''''
        \<and> pid_Container demo_seclib (PidMode ?hc) \<noteq> ''''
        \<and> GetContainer demo_seclib (ipc_Container demo_seclib (IpcMode ?hc))
            = Inr (demo_container ''u:r:t:s0'')
        \<and> GetContainer demo_seclib (pid_Container demo_seclib (PidMode ?hc))
            = Inr (demo_container ''u:r:t:s0'')"
    by (simp add: demo_seclib_def demo_hostConfig_def)
  have d: "DupSecOpt demo_seclib (ProcessLabel (demo_container ''u:r:t:s0''))
             = Some [''user:u'', ''role:r'', ''type:t'', ''level:s0'']
         \<and> DupSecOpt demo_seclib (ProcessLabel (demo_container ''u:r:t:s0''))
             = Some [''user:u'', ''role:r'', ''type:t'', ''level:s0'']
         \<and> length [''user:u'', ''role:r'', ''type:t'', ''level:s0'']
             \<le> length [''user:u'', ''role:r'', ''type:t'', ''level:s0'']"
    by (simp add: demo_seclib_def demo_container_def)
  note t = generateSecurityOpt_shared [of demo_seclib ?hc "demo_container ''u:r:t:s0''"
      "demo_container ''u:r:t:s0''", THEN conjunct2, THEN mp, OF pre, THEN conjunct2,
      THEN spec, THEN spec, THEN mp, OF d, THEN conjunct2]
  have "generateSecurityOpt demo_seclib ?hc
          = Inr (Some (map (\<lambda>l. ''label='' @ l) [''user:u'', ''role:r'', ''type:t'', ''level:s0'']))"
    by (rule t [THEN mp]) simp
  then show "generateSecurityOpt demo_seclib ?hc
     = Inr (Some [''label=user:u'', ''label=role:r'', ''label=type:t'', ''label=level:s0''])"
    by simp
qed

text \<open>
  Claim C5 as stated fails where one peer has no process label: the label library gives
  \<^verbatim>\<open>nil\<close> for it, the test of line 237 skips the comparison, and the two differing
  sets give no error.
\<close>

theorem generateSecurityOpt_differing_labels_no_error:
  "generateSecurityOpt demo_seclib (demo_hostConfig ''container:a'' ''container:b'') = Inr None
   \<and> DupSecOpt demo_seclib (ProcessLabel (demo_container ''''))
       \<noteq> DupSecOpt demo_seclib (ProcessLabel (demo_container ''u:r:t:s0''))
   \<and> GetContainer demo_seclib ''a'' = Inr (demo_container '''')
   \<and> GetContainer demo_seclib ''b'' = Inr (demo_container ''u:r:t:s0'')"
  by (simp add: generateSecurityOpt_def generateSecurityOpt_pid_def Let_def
        demo_seclib_def demo_hostConfig_def demo_container_def SplitHead_def)

end
